theory Spec2Isabelle
  imports Complex_Main
begin

section \<open>Strings and the regular expressions of the handbook Q and A pipeline\<close>

text \<open>
  A Python \<open>str\<close> is modelled as a \<open>string\<close>: one \<open>char\<close> stands for one code point
  in the range 0 to 255, so \<open>length\<close> counts what Python's \<open>len\<close> counts. The only
  literals of the sources outside that range are the bullet (U+2022) of the free-mode
  answer and the arrow (U+2192) of the prompt template; both are output-only and are
  written here as fixed constants holding their UTF-8 bytes.
\<close>

definition nl :: char where
  "nl = CHR 0x0A"

definition bullet :: string where
  "bullet = [CHR 0xE2, CHR 0x80, CHR 0xA2]"

definition arrow :: string where
  "arrow = [CHR 0xE2, CHR 0x86, CHR 0x92]"

text \<open>\<open>\d\<close> of a Python \<open>str\<close> pattern: decimal digits (below 256 only 0 to 9).\<close>

definition is_digit :: "char \<Rightarrow> bool" where
  "is_digit c = (c \<in> set ''0123456789'')"


text \<open>
  \<open>\s\<close> and \<open>str.isspace\<close> (what \<open>str.strip()\<close> removes): below 256 the code points
  9 to 13, 28 to 32, 133 and 160.
\<close>

definition is_space :: "char \<Rightarrow> bool" where
  "is_space c = (c \<in> set [CHR 0x09, CHR 0x0A, CHR 0x0B, CHR 0x0C, CHR 0x0D,
       CHR 0x1C, CHR 0x1D, CHR 0x1E, CHR 0x1F, CHR 0x20, CHR 0x85, CHR 0xA0])"

text \<open>\<open>s.strip()\<close>\<close>

definition strip :: "string \<Rightarrow> string" where
  "strip s = rev (dropWhile is_space (rev (dropWhile is_space s)))"

text \<open>\<open>s.split('\n')\<close>: never empty, \<open>''.split('\n') == ['']\<close>.\<close>

fun split_nl :: "string \<Rightarrow> string list" where
  "split_nl [] = [[]]"
| "split_nl (c # cs) =
     (if c = nl then [] # split_nl cs
      else (case split_nl cs of
              l # ls \<Rightarrow> (c # l) # ls
            | [] \<Rightarrow> [[c]]))"

text \<open>\<open>sep.join(xs)\<close>\<close>

fun join :: "string \<Rightarrow> string list \<Rightarrow> string" where
  "join sep [] = []"
| "join sep [x] = x"
| "join sep (x # y # ys) = x @ sep @ join sep (y # ys)"

text \<open>\<open>s.startswith(p)\<close>\<close>

definition startswith :: "string \<Rightarrow> string \<Rightarrow> bool" where
  "startswith s p = (take (length p) s = p)"

text \<open>\<open>str(n)\<close> of a non-negative integer.\<close>

definition digit_char :: "nat \<Rightarrow> char" where
  "digit_char d = ''0123456789'' ! d"

fun str_nat :: "nat \<Rightarrow> string" where
  "str_nat n = (if n < 10 then [digit_char n] else str_nat (n div 10) @ [digit_char (n mod 10)])"

declare str_nat.simps [simp del]

text \<open>
  The regular expressions of the sources are sequences of single-character classes, each
  optionally under \<open>+\<close>. \<open>match_here\<close> is the backtracking matcher of Python's \<open>re\<close>
  for them, anchored at the start of its input: a \<open>+\<close> is greedy, it first tries to take
  one more character and gives one back only when the rest of the pattern fails. The
  result is the length of the match.
\<close>

datatype atom = One "char \<Rightarrow> bool" | Plus "char \<Rightarrow> bool"

fun match_here :: "atom list \<Rightarrow> string \<Rightarrow> nat option" where
  "match_here [] s = Some 0"
| "match_here (a # as) [] = None"
| "match_here (One p # as) (c # cs) =
     (if p c then map_option Suc (match_here as cs) else None)"
| "match_here (Plus p # as) (c # cs) =
     (if p c then
        (case match_here (Plus p # as) cs of
           Some n \<Rightarrow> Some (Suc n)
         | None \<Rightarrow> map_option Suc (match_here as cs))
      else None)"


text \<open>
  \<open>re.search(pat, s)\<close>: the leftmost position with a match, as (start, length). An
  empty pattern apart, no pattern here matches the empty string.
\<close>

fun re_search :: "atom list \<Rightarrow> string \<Rightarrow> (nat \<times> nat) option" where
  "re_search pat [] = map_option (Pair 0) (match_here pat [])"
| "re_search pat (c # cs) =
     (case match_here pat (c # cs) of
        Some n \<Rightarrow> Some (0, n)
      | None \<Rightarrow> map_option (\<lambda>(i, n). (Suc i, n)) (re_search pat cs))"



section \<open>document_processor.py\<close>

datatype error =
    ValueError string
  | KeyError string
  | LLMAPIError string
  | DocumentProcessingError string
  | ExternalError string

text \<open>\<open>str(e)\<close>; a \<open>KeyError\<close> prints its key quoted.\<close>

fun str_error :: "error \<Rightarrow> string" where
  "str_error (ValueError m) = m"
| "str_error (KeyError k) = [CHR 0x27] @ k @ [CHR 0x27]"
| "str_error (LLMAPIError m) = m"
| "str_error (DocumentProcessingError m) = m"
| "str_error (ExternalError m) = m"

text \<open>
  The metadata dictionary of a page or chunk; a key that is absent is \<open>None\<close>.
  \<open>load_pdf\<close> sets \<open>page\<close> and \<open>source\<close>, \<open>split_documents\<close> adds \<open>chunk_id\<close>
  and, on the section path, \<open>section\<close>.
\<close>

record metadata =
  m_section :: "string option"
  m_page :: "nat option"
  m_chunk_id :: "nat option"
  m_source :: "string option"

text \<open>
  A page of \<open>load_pdf\<close> and a chunk of \<open>split_documents\<close> are dictionaries with the
  keys \<open>content\<close> and \<open>metadata\<close>; a retrieved chunk of the Q and A engine has the key
  \<open>score\<close> as well.
\<close>

record chunk =
  content :: string
  metadata :: metadata
  score :: "real option"





definition truthy :: "string option \<Rightarrow> bool" where
  "truthy s = (case s of None \<Rightarrow> False | Some t \<Rightarrow> t \<noteq> [])"




text \<open>
  \<open>split_documents\<close>. The fallback splitter is langchain's
  \<open>RecursiveCharacterTextSplitter\<close>, a library outside the repository: its
  \<open>split_text\<close> is the parameter \<open>splitter\<close>, which may raise. Any exception inside
  the body is re-raised as \<open>DocumentProcessingError\<close>, whose message is a fixed prefix
  followed by the text of the cause; the model keeps the text of the cause.
\<close>





section \<open>config.py\<close>

text \<open>
  The class attributes of \<open>Config\<close> that the engine reads. They are read at each
  call, and the front end assigns \<open>Config.MODE\<close> while the engine lives.
\<close>

record config =
  MODE :: string
  OPENAI_API_KEY :: string
  TOP_K :: nat
  ENABLE_CACHE :: bool

text \<open>
  \<open>PROMPT_TEMPLATE\<close>, line by line: the lines before \<open>{context}\<close>, those between
  \<open>{context}\<close> and \<open>{question}\<close>, and those after \<open>{question}\<close>.
\<close>

definition PROMPT_HEAD :: "string list" where
  \<open>PROMPT_HEAD =
     [''You are an experienced HR consultant who helps employees understand company policies.'',
      [],
      ''Your task is to accurately answer employee questions based on the employee handbook content.'',
      [],
      ''Employee Handbook Content:'']\<close>

definition PROMPT_MID :: "string list" where
  \<open>PROMPT_MID =
     [[],
      ''Employee Question:'']\<close>

definition PROMPT_TAIL :: "string list" where
  \<open>PROMPT_TAIL =
     [[],
      ''IMPORTANT - How to read employee handbook policies:'',
      [],
      ''Employee handbooks use concise, list-based formats. When you see a policy with specific requirements or restrictions:'',
      [],
      ''1. **Identify what IS explicitly stated**:'',
      ''   - "Required in office: X, Y" means you MUST be in office on days X and Y'',
      ''   - "Prohibited: A, B" means you CANNOT do A or B'',
      ''   - "Up to N" means the MAXIMUM is N, not a requirement'',
      [],
      ''2. **Understand what is NOT stated (implicit permissions)**:'',
      ''   - If a policy says "Required in office: Mondays and Thursdays"'',
      ''   - This explicitly requires: Monday and Thursday in office'',
      ''   - This implicitly allows: Tuesday, Wednesday, Friday for other arrangements (like remote work)'',
      ''   - The policy does NOT say "Only Mondays and Thursdays can be remote" - it says the OPPOSITE'',
      [],
      ''3. **Combine multiple policy rules**:'',
      ''   - "Required in office: Mondays and Thursdays" = Must be in office 2 days'',
      ''   - "Up to 3 days per week remote work allowed" = Can work remotely up to 3 days'',
      ''   - Available days for remote: Tuesday, Wednesday, Friday (5 days - 2 required = 3 available)'',
      ''   - You can choose any 3 from these available days'',
      [],
      ''4. **Answer the question**:'',
      ''   - Match the question's language (English '' @ arrow @ '' English, Chinese '' @ arrow @ '' Chinese)'',
      ''   - Be direct: "Yes" or "No" first, then explain'',
      ''   - State any conditions clearly'',
      ''   - Only say "not mentioned" if truly absent from the handbook'',
      [],
      ''Now provide your answer:'']\<close>

text \<open>\<open>PROMPT_TEMPLATE.format(context=context, question=question)\<close>\<close>

definition PROMPT_TEMPLATE_format :: "string \<Rightarrow> string \<Rightarrow> string" where
  "PROMPT_TEMPLATE_format context question =
     join [nl] (PROMPT_HEAD @ [context] @ PROMPT_MID @ [question] @ PROMPT_TAIL)"

section \<open>qa_engine.py\<close>

text \<open>A document of the vector store, and a formatted source of an answer.\<close>

record document =
  page_content :: string
  doc_metadata :: metadata

text \<open>\<open>metadata.get("page", "?")\<close> is the page number or the string \<open>"?"\<close>.\<close>

datatype page_ref = PageNum nat | PageStr string

record source =
  src_page :: page_ref
  src_section :: string
  src_content :: string
  src_score :: real

text \<open>
  What the engine does that a caller cannot see in its result is recorded in a log:
  each similarity search, each call of one of the two answer generators (with the
  question) and each request sent to the language model (with the prompt).
\<close>

datatype event =
    SimilaritySearch string
  | GenerateSimple string
  | GenerateOpenAI string
  | LLMInvoke string

text \<open>
  The engine and the services it talks to. \<open>vector_store q k\<close> is
  \<open>similarity_search_with_score(q, k=k)\<close> of the FAISS index the engine was built with:
  the index and its local embedding model are fixed, so the search is a function of the
  question; it may raise. \<open>llm\<close> tells whether \<open>self._llm\<close> has been created.
  \<open>provider n prompt\<close> is what the \<open>n\<close>-th request to the language model returns for
  \<open>prompt\<close>: the text of the response, or the exception it raises; the provider may
  answer the same prompt differently each time. \<open>llm_calls\<close> counts the requests made.
\<close>

record qa_engine =
  config :: config
  vector_store :: "string \<Rightarrow> nat \<Rightarrow> error + (document \<times> real) list"
  cache :: "string \<rightharpoonup> (string \<times> source list)"
  llm :: bool
  provider :: "nat \<Rightarrow> string \<Rightarrow> error + string"
  llm_calls :: nat
  events :: "event list"

text \<open>\<open>QAEngine.__init__\<close>\<close>

definition new_engine ::
  "config \<Rightarrow> (string \<Rightarrow> nat \<Rightarrow> error + (document \<times> real) list)
     \<Rightarrow> (nat \<Rightarrow> string \<Rightarrow> error + string) \<Rightarrow> qa_engine" where
  "new_engine cfg vs prov =
     \<lparr>config = cfg, vector_store = vs, cache = Map.empty, llm = False,
      provider = prov, llm_calls = 0, events = []\<rparr>"

text \<open>\<open>_get_llm\<close>: the result tells whether an LLM is returned (\<open>False\<close> is \<open>None\<close>).\<close>

definition get_llm :: "qa_engine \<Rightarrow> error + (bool \<times> qa_engine)" where
  "get_llm s =
     (if MODE (config s) = ''paid'' then
        (if OPENAI_API_KEY (config s) = [] then
           Inl (ValueError ''Please set OPENAI_API_KEY in .env file'')
         else Inr (True, s\<lparr>llm := True\<rparr>))
      else Inr (False, s))"

text \<open>\<open>search_relevant_chunks\<close>: any exception of the search gives the empty list.\<close>

definition result_chunks :: "(document \<times> real) list \<Rightarrow> chunk list" where
  "result_chunks results =
     foldl (\<lambda>chunks (doc, sc).
              chunks @ [\<lparr>content = page_content doc, metadata = doc_metadata doc,
                         score = Some sc\<rparr>])
       [] results"

definition search_relevant_chunks :: "qa_engine \<Rightarrow> string \<Rightarrow> chunk list \<times> qa_engine" where
  "search_relevant_chunks s question =
     (let s' = s\<lparr>events := events s @ [SimilaritySearch question]\<rparr>
      in case vector_store s question (TOP_K (config s)) of
           Inr results \<Rightarrow> (result_chunks results, s')
         | Inl e \<Rightarrow> ([], s'))"

text \<open>
  \<open>generate_answer_openai\<close>: every exception raised in its body, the \<open>ValueError\<close> of
  \<open>_get_llm\<close> and its own \<open>LLMAPIError\<close> included, is re-raised as
  \<open>LLMAPIError("OpenAI API error: " + str(e))\<close>.
\<close>

definition generate_answer_openai ::
  "qa_engine \<Rightarrow> string \<Rightarrow> string \<Rightarrow> (error + string) \<times> qa_engine" where
  "generate_answer_openai s question context =
     (case get_llm s of
        Inl e \<Rightarrow> (Inl (LLMAPIError (''OpenAI API error: '' @ str_error e)), s)
      | Inr (has_llm, s1) \<Rightarrow>
          (if \<not> has_llm then
             (Inl (LLMAPIError (''OpenAI API error: ''
                     @ str_error (LLMAPIError ''Paid mode not properly configured''))), s1)
           else
             (let prompt = PROMPT_TEMPLATE_format context question;
                  s2 = s1\<lparr>llm_calls := llm_calls s1 + 1,
                          events := events s1 @ [LLMInvoke prompt]\<rparr>
              in case provider s1 (llm_calls s1) prompt of
                   Inl e \<Rightarrow> (Inl (LLMAPIError (''OpenAI API error: '' @ str_error e)), s2)
                 | Inr answer \<Rightarrow> (Inr answer, s2))))"

text \<open>\<open>generate_simple_answer\<close> (free mode).\<close>

definition not_found :: string where
  "not_found = ''Sorry, no relevant information found in the handbook.''"

text \<open>\<open>r'Page (\d+)'\<close>, and group 1 of its leftmost match in a line.\<close>

definition page_pattern :: "atom list" where
  "page_pattern = map (\<lambda>c. One (\<lambda>x. x = c)) ''Page '' @ [Plus is_digit]"

definition search_page :: "string \<Rightarrow> string option" where
  "search_page line =
     (case re_search page_pattern line of
        None \<Rightarrow> None
      | Some (i, n) \<Rightarrow> Some (take (n - 5) (drop (i + 5) line)))"

text \<open>The loop over the lines: the state is \<open>relevant_lines\<close> and \<open>current_page\<close>.\<close>

definition simple_step :: "string list \<times> string option \<Rightarrow> string \<Rightarrow> string list \<times> string option" where
  "simple_step st raw =
     (case st of (relevant_lines, current_page) \<Rightarrow>
        (let line = strip raw
         in if startswith line ''[Source:'' then
              (case search_page line of
                 Some p \<Rightarrow> (relevant_lines, Some p)
               | None \<Rightarrow> st)
            else if line \<noteq> [] \<and> truthy current_page then
              (relevant_lines @ [bullet @ '' '' @ line], current_page)
            else st))"

definition generate_simple_answer :: "string \<Rightarrow> string \<Rightarrow> string" where
  "generate_simple_answer question context =
     (case foldl simple_step ([], None) (split_nl context) of
        (relevant_lines, current_page) \<Rightarrow>
          (if relevant_lines \<noteq> [] then
             ''According to the employee handbook (Page ''
               @ (case current_page of Some p \<Rightarrow> p | None \<Rightarrow> ''None'')
               @ ''), here is the relevant information:'' @ [nl, nl]
               @ join [nl] (take 15 relevant_lines)
           else not_found))"

text \<open>\<open>format_sources\<close>\<close>

definition format_source :: "chunk \<Rightarrow> source" where
  "format_source chunk =
     (let content0 = content chunk;
          content1 = (if length content0 > 200 then take 200 content0 @ ''...'' else content0)
      in \<lparr>src_page = (case m_page (metadata chunk) of Some n \<Rightarrow> PageNum n | None \<Rightarrow> PageStr ''?''),
          src_section = (case m_section (metadata chunk) of Some t \<Rightarrow> t | None \<Rightarrow> []),
          src_content = content1,
          src_score = (case score chunk of Some x \<Rightarrow> x | None \<Rightarrow> 0)\<rparr>)"

definition format_sources :: "chunk list \<Rightarrow> source list" where
  "format_sources chunks = foldl (\<lambda>sources chunk. sources @ [format_source chunk]) [] chunks"

text \<open>
  \<open>answer_question\<close>. The context is one block per chunk,
  \<open>"[Source: Page " + str(page or "?") + "]\n" + content\<close>, joined by blank lines.
  Only \<open>LLMAPIError\<close> is caught around the generators; any other exception would
  propagate to the caller.
\<close>

definition context_block :: "chunk \<Rightarrow> string" where
  "context_block chunk =
     ''[Source: Page ''
       @ (case m_page (metadata chunk) of Some n \<Rightarrow> str_nat n | None \<Rightarrow> ''?'')
       @ '']'' @ [nl] @ content chunk"

definition build_context :: "chunk list \<Rightarrow> string" where
  "build_context relevant_chunks = join [nl, nl] (map context_block relevant_chunks)"

definition store_result :: "qa_engine \<Rightarrow> string \<Rightarrow> string \<Rightarrow> source list \<Rightarrow> qa_engine" where
  "store_result s question answer sources =
     (if ENABLE_CACHE (config s)
      then s\<lparr>cache := (cache s)(question \<mapsto> (answer, sources))\<rparr>
      else s)"

definition answer_question ::
  "qa_engine \<Rightarrow> string \<Rightarrow> (error + string \<times> source list) \<times> qa_engine" where
  "answer_question s question =
     (if ENABLE_CACHE (config s) \<and> question \<in> dom (cache s) then
        (case cache s question of
           Some entry \<Rightarrow> (Inr entry, s)
         | None \<Rightarrow> (Inl (KeyError question), s))
      else
        (case search_relevant_chunks s question of
           (relevant_chunks, s1) \<Rightarrow>
             (if relevant_chunks = [] then (Inr (not_found, []), s1)
              else
                (let context = build_context relevant_chunks;
                     generated =
                       (if MODE (config s1) = ''paid'' then
                          generate_answer_openai
                            (s1\<lparr>events := events s1 @ [GenerateOpenAI question]\<rparr>)
                            question context
                        else
                          (Inr (generate_simple_answer question context),
                           s1\<lparr>events := events s1 @ [GenerateSimple question]\<rparr>))
                 in case generated of
                      (Inr answer, s2) \<Rightarrow>
                        (let sources = format_sources relevant_chunks
                         in (Inr (answer, sources), store_result s2 question answer sources))
                    | (Inl (LLMAPIError m), s2) \<Rightarrow>
                        (let answer = ''Sorry, an error occurred while generating the answer: '' @ m;
                             sources = format_sources relevant_chunks
                         in (Inr (answer, sources), store_result s2 question answer sources))
                    | (Inl e, s2) \<Rightarrow> (Inl e, s2)))))"

text \<open>
  What a caller can do with a living engine: ask a question, or assign \<open>Config.MODE\<close>.
  \<open>run_ops\<close> does a sequence of these and keeps the last state.
\<close>

datatype op = Ask string | SetMode string

fun do_op :: "qa_engine \<Rightarrow> op \<Rightarrow> qa_engine" where
  "do_op s (Ask q) = snd (answer_question s q)"
| "do_op s (SetMode m) = s\<lparr>config := (config s)\<lparr>MODE := m\<rparr>\<rparr>"

definition run_ops :: "qa_engine \<Rightarrow> op list \<Rightarrow> qa_engine" where
  "run_ops s ops = foldl do_op s ops"

text \<open>How often the generators ran for a question, according to the log.\<close>

definition generator_calls :: "string \<Rightarrow> event list \<Rightarrow> nat" where
  "generator_calls q evs =
     length (filter (\<lambda>e. e = GenerateSimple q \<or> e = GenerateOpenAI q) evs)"

section \<open>Auxiliary notions for the properties\<close>

text \<open>The chunks \<open>search_relevant_chunks\<close> returns for a question.\<close>

definition retrieved :: "qa_engine \<Rightarrow> string \<Rightarrow> chunk list" where
  "retrieved s q = fst (search_relevant_chunks s q)"

text \<open>Every cached question is one for which retrieval finds chunks.\<close>

definition cache_sound :: "qa_engine \<Rightarrow> bool" where
  "cache_sound s = (\<forall>q \<in> dom (cache s). retrieved s q \<noteq> [])"

text \<open>
  With caching on, the answer \<open>r\<close> to \<open>q\<close> is settled: it is the cached entry, or
  nothing is cached and nothing is retrieved for \<open>q\<close>, and \<open>r\<close> is the not-found answer.
\<close>

definition settled :: "qa_engine \<Rightarrow> string \<Rightarrow> string \<times> source list \<Rightarrow> bool" where
  "settled s q r =
     (ENABLE_CACHE (config s) \<and>
      (cache s q = Some r \<or>
       (q \<notin> dom (cache s) \<and> retrieved s q = [] \<and> r = (not_found, []))))"

subsection \<open>A small handbook, for the concrete checks\<close>

definition handbook_doc :: "string \<Rightarrow> nat option \<Rightarrow> document" where
  "handbook_doc t p =
     \<lparr>page_content = t,
      doc_metadata = \<lparr>m_section = None, m_page = p, m_chunk_id = Some 0,
                      m_source = Some ''handbook.pdf''\<rparr>\<rparr>"

definition example_store :: "string \<Rightarrow> nat \<Rightarrow> error + (document \<times> real) list" where
  "example_store q k =
     (if q = ''crash'' then Inl (ExternalError ''index unavailable'')
      else if q = ''parking'' then Inr []
      else Inr (take k
             [(handbook_doc ''3. Leave Policy\<newline>Employees get 15 days annual leave.'' (Some 1),
               1 / 2)]))"

definition example_config :: "string \<Rightarrow> config" where
  "example_config mode =
     \<lparr>MODE = mode, OPENAI_API_KEY = ''sk-test'', TOP_K = 3, ENABLE_CACHE = True\<rparr>"

text \<open>A provider that refuses the first request and answers from the second on.\<close>

definition quota_provider :: "nat \<Rightarrow> string \<Rightarrow> error + string" where
  "quota_provider n prompt =
     (if n = 0 then Inl (ExternalError ''quota exceeded'') else Inr ''You get 15 days.'')"

definition paid_engine :: qa_engine where
  "paid_engine = new_engine (example_config ''paid'') example_store quota_provider"

definition free_engine :: qa_engine where
  "free_engine = new_engine (example_config ''free'') example_store quota_provider"

text \<open>Two retrieved chunks: a short one, and one of 250 characters without a page.\<close>

definition short_chunk :: chunk where
  "short_chunk =
     \<lparr>content = ''Employees get 15 days annual leave.'',
      metadata = \<lparr>m_section = Some ''3. Leave Policy'', m_page = Some 2, m_chunk_id = Some 0,
                  m_source = Some ''handbook.pdf''\<rparr>,
      score = Some (1 / 2)\<rparr>"

definition long_chunk :: chunk where
  "long_chunk =
     \<lparr>content = replicate 250 (CHR ''x''),
      metadata = \<lparr>m_section = None, m_page = None, m_chunk_id = None, m_source = None\<rparr>,
      score = Some (3 / 4)\<rparr>"

subsection \<open>Chunk identifiers and example pages\<close>





subsection \<open>The free-mode answer, described from outside\<close>

text \<open>
  A line (already stripped) is a marker when it starts with \<open>[Source:\<close>; a marker is
  numbered when a page number is found in it. The content lines of a context are the
  non-empty lines that are not markers and come after the first numbered marker.
\<close>

definition is_marker :: "string \<Rightarrow> bool" where
  "is_marker l = startswith l ''[Source:''"

definition marker_page :: "string \<Rightarrow> string option" where
  "marker_page l = (if is_marker l then search_page l else None)"

definition content_lines :: "string list \<Rightarrow> string list" where
  "content_lines ls =
     filter (\<lambda>l. l \<noteq> [] \<and> \<not> is_marker l) (dropWhile (\<lambda>l. marker_page l = None) ls)"

definition bullet_line :: "string \<Rightarrow> string" where
  "bullet_line l = bullet @ '' '' @ l"

text \<open>
  The answer in words: the not-found message when there is no content line; otherwise
  one header naming the page of the last numbered marker of the whole context, a blank
  line, and the first 15 content lines, each as a bullet.
\<close>

definition simple_answer_spec :: "string \<Rightarrow> string" where
  "simple_answer_spec context =
     (let ls = map strip (split_nl context);
          body = content_lines ls
      in if body = [] then not_found
         else ''According to the employee handbook (Page ''
                @ last (List.map_filter marker_page ls)
                @ ''), here is the relevant information:'' @ [nl, nl]
                @ join [nl] (map bullet_line (take 15 body)))"

text \<open>The loop of \<open>generate_simple_answer\<close> started in the middle, with a current page.\<close>

definition content_from :: "string option \<Rightarrow> string list \<Rightarrow> string list" where
  "content_from cur ls =
     (if truthy cur then filter (\<lambda>l. l \<noteq> [] \<and> \<not> is_marker l) ls else content_lines ls)"

definition final_page :: "string option \<Rightarrow> string list \<Rightarrow> string option" where
  "final_page cur ls =
     (if List.map_filter marker_page ls = [] then cur
      else Some (last (List.map_filter marker_page ls)))"

subsection \<open>Documents made of headings and bodies\<close>







section \<open>Properties of the Q and A engine\<close>

subsection \<open>The branches of \<open>answer_question\<close>\<close>

lemma foldl_snoc_map: "foldl (\<lambda>acc x. acc @ [f x]) ys xs = ys @ map f xs"
  by (induction xs arbitrary: ys) simp_all

lemma format_sources_map: "format_sources chunks = map format_source chunks"
  by (simp add: format_sources_def foldl_snoc_map)

lemma search_relevant_chunks_eq:
  "search_relevant_chunks s q = (retrieved s q, s\<lparr>events := events s @ [SimilaritySearch q]\<rparr>)"
  by (simp add: retrieved_def search_relevant_chunks_def Let_def split: sum.splits)

lemma retrieved_cong:
  "vector_store s' = vector_store s \<Longrightarrow> TOP_K (config s') = TOP_K (config s)
     \<Longrightarrow> retrieved s' q = retrieved s q"
  by (simp add: retrieved_def search_relevant_chunks_def Let_def split: sum.splits)

lemma generate_answer_openai_cases:
  "generate_answer_openai s q ctx = (Inl e, s2) \<Longrightarrow> \<exists>m. e = LLMAPIError m"
  by (auto simp: generate_answer_openai_def get_llm_def Let_def split: if_splits sum.splits)

lemma generate_answer_openai_frame:
  "generate_answer_openai s q ctx = (g, s2) \<Longrightarrow>
     config s2 = config s \<and> cache s2 = cache s \<and> vector_store s2 = vector_store s
       \<and> provider s2 = provider s
       \<and> generator_calls q' (events s2) = generator_calls q' (events s)"
  by (auto simp: generate_answer_openai_def get_llm_def Let_def generator_calls_def
      split: if_splits sum.splits)

lemma answer_question_hit:
  "ENABLE_CACHE (config s) \<Longrightarrow> cache s q = Some r \<Longrightarrow> answer_question s q = (Inr r, s)"
  by (auto simp: answer_question_def)

lemma answer_question_empty:
  "\<not> (ENABLE_CACHE (config s) \<and> q \<in> dom (cache s)) \<Longrightarrow> retrieved s q = [] \<Longrightarrow>
     answer_question s q = (Inr (not_found, []), s\<lparr>events := events s @ [SimilaritySearch q]\<rparr>)"
  by (auto simp: answer_question_def search_relevant_chunks_eq)

lemma answer_question_free:
  "\<not> (ENABLE_CACHE (config s) \<and> q \<in> dom (cache s)) \<Longrightarrow> retrieved s q \<noteq> [] \<Longrightarrow>
   MODE (config s) \<noteq> ''paid'' \<Longrightarrow>
     answer_question s q =
       (Inr (generate_simple_answer q (build_context (retrieved s q)), format_sources (retrieved s q)),
        store_result (s\<lparr>events := events s @ [SimilaritySearch q, GenerateSimple q]\<rparr>) q
          (generate_simple_answer q (build_context (retrieved s q))) (format_sources (retrieved s q)))"
  by (auto simp: answer_question_def search_relevant_chunks_eq Let_def)

lemma answer_question_paid:
  assumes "\<not> (ENABLE_CACHE (config s) \<and> q \<in> dom (cache s))" "retrieved s q \<noteq> []"
    "MODE (config s) = ''paid''"
    "generate_answer_openai (s\<lparr>events := events s @ [SimilaritySearch q, GenerateOpenAI q]\<rparr>) q
        (build_context (retrieved s q)) = (g, s2)"
  shows "answer_question s q =
       (Inr (case g of Inr a \<Rightarrow> a
               | Inl e \<Rightarrow> ''Sorry, an error occurred while generating the answer: '' @ str_error e,
             format_sources (retrieved s q)),
        store_result s2 q
          (case g of Inr a \<Rightarrow> a
               | Inl e \<Rightarrow> ''Sorry, an error occurred while generating the answer: '' @ str_error e)
          (format_sources (retrieved s q)))"
proof (cases g)
  case (Inl e)
  with assms(4) obtain m where "e = LLMAPIError m"
    using generate_answer_openai_cases by blast
  with Inl assms show ?thesis
    by (auto simp: answer_question_def search_relevant_chunks_eq Let_def)
next
  case (Inr a)
  with assms show ?thesis
    by (auto simp: answer_question_def search_relevant_chunks_eq Let_def)
qed


lemma store_result_simps:
  "config (store_result s q a srcs) = config s"
  "vector_store (store_result s q a srcs) = vector_store s"
  "provider (store_result s q a srcs) = provider s"
  "events (store_result s q a srcs) = events s"
  "llm_calls (store_result s q a srcs) = llm_calls s"
  "cache (store_result s q a srcs) =
     (if ENABLE_CACHE (config s) then (cache s)(q \<mapsto> (a, srcs)) else cache s)"
  by (simp_all add: store_result_def)

lemma generator_calls_append:
  "generator_calls q (xs @ ys) = generator_calls q xs + generator_calls q ys"
  by (simp add: generator_calls_def)

lemma generator_calls_simps:
  "generator_calls q [] = 0"
  "generator_calls q (SimilaritySearch x # evs) = generator_calls q evs"
  "generator_calls q (LLMInvoke x # evs) = generator_calls q evs"
  "generator_calls q (GenerateSimple x # evs) = (if x = q then 1 else 0) + generator_calls q evs"
  "generator_calls q (GenerateOpenAI x # evs) = (if x = q then 1 else 0) + generator_calls q evs"
  by (auto simp: generator_calls_def)

lemma answer_question_cases [case_names hit empty generated]:
  obtains
    (hit) r where "ENABLE_CACHE (config s)" "cache s q = Some r"
      "answer_question s q = (Inr r, s)"
  | (empty) "\<not> (ENABLE_CACHE (config s) \<and> q \<in> dom (cache s))" "retrieved s q = []"
      "answer_question s q =
         (Inr (not_found, []), s\<lparr>events := events s @ [SimilaritySearch q]\<rparr>)"
  | (generated) a s2 where
      "\<not> (ENABLE_CACHE (config s) \<and> q \<in> dom (cache s))" "retrieved s q \<noteq> []"
      "answer_question s q =
         (Inr (a, format_sources (retrieved s q)),
          store_result s2 q a (format_sources (retrieved s q)))"
      "config s2 = config s" "cache s2 = cache s" "vector_store s2 = vector_store s"
      "provider s2 = provider s"
      "\<And>q'. generator_calls q' (events s2) =
         generator_calls q' (events s) + (if q' = q then 1 else 0)"
proof (cases "ENABLE_CACHE (config s) \<and> q \<in> dom (cache s)")
  case True
  then obtain r where "cache s q = Some r" by auto
  with True show ?thesis using hit answer_question_hit by blast
next
  case miss: False
  show ?thesis
  proof (cases "retrieved s q = []")
    case True
    with miss show ?thesis using empty answer_question_empty by blast
  next
    case nonempty: False
    show ?thesis
    proof (cases "MODE (config s) = ''paid''")
      case False
      let ?s2 = "s\<lparr>events := events s @ [SimilaritySearch q, GenerateSimple q]\<rparr>"
      have "\<And>q'. generator_calls q' (events ?s2) =
         generator_calls q' (events s) + (if q' = q then 1 else 0)"
        by (simp add: generator_calls_append generator_calls_simps)
      with answer_question_free[OF miss nonempty False] miss nonempty show ?thesis
        using generated[of "generate_simple_answer q (build_context (retrieved s q))" ?s2]
        by simp
    next
      case True
      let ?s1 = "s\<lparr>events := events s @ [SimilaritySearch q, GenerateOpenAI q]\<rparr>"
      obtain g s2 where g: "generate_answer_openai ?s1 q (build_context (retrieved s q)) = (g, s2)"
        by (cases "generate_answer_openai ?s1 q (build_context (retrieved s q))") auto
      have fr: "config s2 = config s" "cache s2 = cache s" "vector_store s2 = vector_store s"
        "provider s2 = provider s"
        using generate_answer_openai_frame[OF g] by simp_all
      have "\<And>q'. generator_calls q' (events s2) =
         generator_calls q' (events s) + (if q' = q then 1 else 0)"
        using generate_answer_openai_frame[OF g]
        by (simp add: generator_calls_append generator_calls_simps)
      with answer_question_paid[OF miss nonempty True g] miss nonempty fr show ?thesis
        using generated by blast
    qed
  qed
qed

lemma answer_question_frame:
  "config (snd (answer_question s q)) = config s"
  "vector_store (snd (answer_question s q)) = vector_store s"
  "provider (snd (answer_question s q)) = provider s"
  by (cases rule: answer_question_cases[of s q]; simp add: store_result_simps)+

lemma do_op_frame:
  "vector_store (do_op s x) = vector_store s"
  "TOP_K (config (do_op s x)) = TOP_K (config s)"
  "ENABLE_CACHE (config (do_op s x)) = ENABLE_CACHE (config s)"
  by (cases x; simp add: answer_question_frame)+

lemma retrieved_do_op: "retrieved (do_op s x) q = retrieved s q"
  by (rule retrieved_cong) (simp_all add: do_op_frame)

lemma run_ops_frame:
  "vector_store (run_ops s ops) = vector_store s"
  "TOP_K (config (run_ops s ops)) = TOP_K (config s)"
  "ENABLE_CACHE (config (run_ops s ops)) = ENABLE_CACHE (config s)"
  unfolding run_ops_def by (induction ops arbitrary: s; simp add: do_op_frame)+

lemma retrieved_run_ops: "retrieved (run_ops s ops) q = retrieved s q"
  by (rule retrieved_cong) (simp_all add: run_ops_frame)

lemma cache_sound_answer: "cache_sound s \<Longrightarrow> cache_sound (snd (answer_question s q))"
proof (cases rule: answer_question_cases[of s q])
  case (hit r)
  assume "cache_sound s" with hit show ?thesis by simp
next
  case empty
  assume "cache_sound s"
  moreover have "retrieved (s\<lparr>events := events s @ [SimilaritySearch q]\<rparr>) = retrieved s"
    by (rule ext, rule retrieved_cong) simp_all
  ultimately show ?thesis using empty by (simp add: cache_sound_def)
next
  case (generated a s2)
  assume cs: "cache_sound s"
  let ?s' = "store_result s2 q a (format_sources (retrieved s q))"
  have "retrieved ?s' = retrieved s"
    by (rule ext, rule retrieved_cong) (simp_all add: store_result_simps generated)
  with cs generated show ?thesis
    by (auto simp: cache_sound_def store_result_simps split: if_splits)
qed

lemma cache_sound_do_op: "cache_sound s \<Longrightarrow> cache_sound (do_op s x)"
proof (cases x)
  case (Ask q)
  assume "cache_sound s" with Ask show ?thesis by (simp add: cache_sound_answer)
next
  case (SetMode m)
  assume cs: "cache_sound s"
  have "retrieved (do_op s x) = retrieved s" by (rule ext) (rule retrieved_do_op)
  with cs SetMode show ?thesis by (simp add: cache_sound_def)
qed

lemma cache_sound_run_ops: "cache_sound s \<Longrightarrow> cache_sound (run_ops s ops)"
  unfolding run_ops_def by (induction ops arbitrary: s) (simp_all add: cache_sound_do_op)

lemma cache_sound_new: "cache_sound (new_engine cfg vs prov)"
  by (simp add: cache_sound_def new_engine_def)

subsection \<open>Settled answers\<close>

lemma retrieved_events_update [simp]: "retrieved (s\<lparr>events := evs\<rparr>) = retrieved s"
  by (rule ext, rule retrieved_cong) simp_all



lemma settled_do_op:
  assumes "settled s q r"
  shows "settled (do_op s x) q r \<and>
         generator_calls q (events (do_op s x)) = generator_calls q (events s)"
proof (cases x)
  case (SetMode m)
  have "retrieved (do_op s x) q = retrieved s q" by (rule retrieved_do_op)
  with assms SetMode show ?thesis by (simp add: settled_def)
next
  case (Ask q')
  show ?thesis
  proof (cases rule: answer_question_cases[of s q'])
    case (hit r')
    with assms Ask show ?thesis by simp
  next
    case empty
    with assms Ask show ?thesis
      by (simp add: settled_def generator_calls_append generator_calls_simps)
  next
    case (generated a s2)
    with assms have ne: "q' \<noteq> q" by (auto simp: settled_def)
    have "retrieved (store_result s2 q' a (format_sources (retrieved s q'))) q = retrieved s q"
      by (rule retrieved_cong) (simp_all add: store_result_simps generated)
    with assms Ask generated ne show ?thesis
      by (auto simp: settled_def store_result_simps)
  qed
qed

lemma settled_run_ops:
  "settled s q r \<Longrightarrow> settled (run_ops s ops) q r \<and>
     generator_calls q (events (run_ops s ops)) = generator_calls q (events s)"
  unfolding run_ops_def
proof (induction ops arbitrary: s)
  case Nil
  then show ?case by simp
next
  case (Cons x ops)
  from settled_do_op[OF Cons.prems, of x] Cons.IH[of "do_op s x"] show ?case by simp
qed



lemma generate_answer_openai_events:
  "fst (generate_answer_openai (s\<lparr>events := evs\<rparr>) q ctx) = fst (generate_answer_openai s q ctx)"
  by (simp add: generate_answer_openai_def get_llm_def Let_def split: sum.splits)

lemma answer_question_generation_error:
  assumes "MODE (config s) = ''paid''" "\<not> (ENABLE_CACHE (config s) \<and> q \<in> dom (cache s))"
    "retrieved s q \<noteq> []"
    "fst (generate_answer_openai s q (build_context (retrieved s q))) = Inl e"
  shows "\<exists>s2. cache s2 = cache s \<and> config s2 = config s \<and>
     answer_question s q =
       (Inr (''Sorry, an error occurred while generating the answer: '' @ str_error e,
             format_sources (retrieved s q)),
        store_result s2 q
          (''Sorry, an error occurred while generating the answer: '' @ str_error e)
          (format_sources (retrieved s q)))"
proof -
  let ?s1 = "s\<lparr>events := events s @ [SimilaritySearch q, GenerateOpenAI q]\<rparr>"
  obtain g s2 where g: "generate_answer_openai ?s1 q (build_context (retrieved s q)) = (g, s2)"
    by (cases "generate_answer_openai ?s1 q (build_context (retrieved s q))") auto
  have "fst (generate_answer_openai ?s1 q (build_context (retrieved s q))) = Inl e"
    using assms(4) by (simp add: generate_answer_openai_events)
  with g have "g = Inl e" by simp
  with answer_question_paid[OF assms(2,3,1) g] generate_answer_openai_frame[OF g]
  show ?thesis by auto
qed

lemma generate_answer_openai_provider_error:
  assumes "MODE (config s) = ''paid''" "OPENAI_API_KEY (config s) \<noteq> []"
    "provider s (llm_calls s) (PROMPT_TEMPLATE_format ctx q) = Inl e"
  shows "generate_answer_openai s q ctx =
     (Inl (LLMAPIError (''OpenAI API error: '' @ str_error e)),
      s\<lparr>llm := True, llm_calls := llm_calls s + 1,
        events := events s @ [LLMInvoke (PROMPT_TEMPLATE_format ctx q)]\<rparr>)"
  using assms by (simp add: generate_answer_openai_def get_llm_def Let_def)

lemma simple_answer_shape:
  "generate_simple_answer q ctx = not_found \<or>
   (\<exists>t. generate_simple_answer q ctx = ''According to the employee handbook (Page '' @ t)"
  by (auto simp: generate_simple_answer_def split: prod.splits)

section \<open>Properties of the matcher\<close>

lemma match_here_le: "match_here pat s = Some n \<Longrightarrow> n \<le> length s"
  by (induction pat s arbitrary: n rule: match_here.induct)
     (auto split: if_splits option.splits)

lemma match_here_ge: "match_here pat s = Some n \<Longrightarrow> length pat \<le> n"
proof (induction pat s arbitrary: n rule: match_here.induct)
  case (4 p as c cs)
  then show ?case by (fastforce split: if_splits option.splits)
qed (auto split: if_splits)

lemma re_search_bounds:
  "re_search pat s = Some (i, n) \<Longrightarrow> i + n \<le> length s \<and> length pat \<le> n"
proof (induction s arbitrary: i)
  case Nil
  then show ?case by (auto dest: match_here_le match_here_ge)
next
  case (Cons c cs)
  show ?case
  proof (cases "match_here pat (c # cs)")
    case (Some m)
    with Cons.prems show ?thesis by (auto dest: match_here_le match_here_ge)
  next
    case None
    with Cons.prems obtain j where "re_search pat cs = Some (j, n)" "i = Suc j" by auto
    with Cons.IH show ?thesis by auto
  qed
qed




section \<open>Properties of the chunker\<close>

subsection \<open>Chunk identifiers\<close>






subsection \<open>The split at the headings\<close>













subsection \<open>Well-formed documents\<close>



















section \<open>Properties of the free-mode generator\<close>

lemma search_page_nonempty: "search_page l = Some p \<Longrightarrow> p \<noteq> []"
proof -
  assume a: "search_page l = Some p"
  then obtain i n where s: "re_search page_pattern l = Some (i, n)"
    and p: "p = take (n - 5) (drop (i + 5) l)"
    by (auto simp: search_page_def split: option.splits)
  from re_search_bounds[OF s] have "i + n \<le> length l" "6 \<le> n"
    by (simp_all add: page_pattern_def)
  with p show ?thesis by auto
qed

lemma simple_step_eq:
  "simple_step (rel, cur) raw =
     (if marker_page (strip raw) \<noteq> None then (rel, marker_page (strip raw))
      else if \<not> is_marker (strip raw) \<and> strip raw \<noteq> [] \<and> truthy cur
      then (rel @ [bullet_line (strip raw)], cur)
      else (rel, cur))"
  by (auto simp: simple_step_def marker_page_def is_marker_def bullet_line_def Let_def
      split: option.splits)

lemma marker_page_truthy: "marker_page l = Some p \<Longrightarrow> truthy (Some p)"
  by (auto simp: marker_page_def truthy_def dest: search_page_nonempty split: if_splits)

lemma marker_page_is_marker: "marker_page l = Some p \<Longrightarrow> is_marker l"
  by (auto simp: marker_page_def split: if_splits)

lemma simple_loop:
  "foldl simple_step (rel, cur) raws =
     (rel @ map bullet_line (content_from cur (map strip raws)),
      final_page cur (map strip raws))"
proof (induction raws arbitrary: rel cur)
  case Nil
  then show ?case
    by (simp add: content_from_def content_lines_def final_page_def map_filter_simps)
next
  case (Cons raw raws)
  let ?l = "strip raw"
  show ?case
  proof (cases "marker_page ?l")
    case (Some p)
    have "content_from cur (?l # map strip raws) = content_from (Some p) (map strip raws)"
      using Some marker_page_truthy[OF Some] marker_page_is_marker[OF Some]
      by (simp add: content_from_def content_lines_def)
    moreover have "final_page cur (?l # map strip raws) = final_page (Some p) (map strip raws)"
      using Some by (simp add: final_page_def map_filter_simps)
    ultimately show ?thesis using Some Cons.IH[of rel "Some p"]
      by (simp add: simple_step_eq)
  next
    case None
    have fp: "final_page cur (?l # map strip raws) = final_page cur (map strip raws)"
      using None by (simp add: final_page_def map_filter_simps)
    show ?thesis
    proof (cases "\<not> is_marker ?l \<and> ?l \<noteq> [] \<and> truthy cur")
      case True
      then have "content_from cur (?l # map strip raws) = ?l # content_from cur (map strip raws)"
        by (simp add: content_from_def)
      with None True fp Cons.IH[of "rel @ [bullet_line ?l]" cur] show ?thesis
        by (simp add: simple_step_eq)
    next
      case False
      then have "content_from cur (?l # map strip raws) = content_from cur (map strip raws)"
        using None by (auto simp: content_from_def content_lines_def)
      moreover from None False have "simple_step (rel, cur) raw = (rel, cur)"
        by (auto simp: simple_step_eq)
      ultimately show ?thesis using fp Cons.IH[of rel cur] by simp
    qed
  qed
qed

lemma content_lines_pages:
  "content_lines ls \<noteq> [] \<Longrightarrow> List.map_filter marker_page ls \<noteq> []"
proof (induction ls)
  case Nil
  then show ?case by (simp add: content_lines_def)
next
  case (Cons l ls)
  then show ?case by (cases "marker_page l") (auto simp: content_lines_def map_filter_simps)
qed

subsection \<open>The example engine, evaluated\<close>

lemma example_retrieved:
  "retrieved paid_engine ''leave'' =
     [\<lparr>content = ''3. Leave Policy\<newline>Employees get 15 days annual leave.'',
       metadata = \<lparr>m_section = None, m_page = Some 1, m_chunk_id = Some 0,
                   m_source = Some ''handbook.pdf''\<rparr>,
       score = Some (1 / 2)\<rparr>]"
  "retrieved paid_engine ''parking'' = []"
  "retrieved free_engine ''parking'' = []"
  by (simp_all add: retrieved_def search_relevant_chunks_def paid_engine_def free_engine_def
      new_engine_def example_store_def example_config_def result_chunks_def handbook_doc_def
      Let_def)

lemma example_paid_engine:
  "MODE (config paid_engine) = ''paid''"
  "OPENAI_API_KEY (config paid_engine) \<noteq> []"
  "ENABLE_CACHE (config paid_engine)"
  "cache paid_engine = Map.empty"
  "llm_calls paid_engine = 0"
  "events paid_engine = []"
  "provider paid_engine 0 p = Inl (ExternalError ''quota exceeded'')"
  by (simp_all add: paid_engine_def new_engine_def example_config_def quota_provider_def)

lemma example_generation_fails:
  "fst (generate_answer_openai paid_engine ''leave''
          (build_context (retrieved paid_engine ''leave'')))
     = Inl (LLMAPIError ''OpenAI API error: quota exceeded'')"
  using generate_answer_openai_provider_error
          [of paid_engine "build_context (retrieved paid_engine ''leave'')" "''leave''"
              "ExternalError ''quota exceeded''"]
  by (simp add: example_paid_engine)

lemma example_sources:
  "format_sources (retrieved paid_engine ''leave'') =
     [\<lparr>src_page = PageNum 1, src_section = [],
       src_content = ''3. Leave Policy\<newline>Employees get 15 days annual leave.'',
       src_score = 1 / 2\<rparr>]"
  by (simp add: example_retrieved format_sources_map format_source_def)

subsection \<open>Retrieval and the formatting of sources\<close>

text \<open>
  Claim C8. For every question, if the similarity search of the vector index raises an
  error, \<open>search_relevant_chunks\<close> returns the empty list instead of propagating the
  error; the engine is left as it was, apart from the log entry of the search.
\<close>

theorem search_error_gives_no_chunks:
  assumes "vector_store s question (TOP_K (config s)) = Inl e"
  shows "search_relevant_chunks s question =
           ([], s\<lparr>events := events s @ [SimilaritySearch question]\<rparr>)"
  using assms by (simp add: search_relevant_chunks_def Let_def)

theorem search_error_gives_no_chunks_witness:
  "vector_store paid_engine ''crash'' (TOP_K (config paid_engine))
     = Inl (ExternalError ''index unavailable'')
   \<and> fst (search_relevant_chunks paid_engine ''crash'') = []"
  using search_error_gives_no_chunks
          [of paid_engine "''crash''" "ExternalError ''index unavailable''"]
  by (simp add: paid_engine_def new_engine_def example_store_def example_config_def)

text \<open>
  Claim C7. The source entry of the \<open>i\<close>-th retrieved chunk shows the chunk's content
  unchanged when it has at most 200 characters and otherwise its first 200 characters
  followed by \<open>...\<close>; it keeps the chunk's score, page and section, with page
  \<open>"?"\<close> when the metadata has none. There is one entry per chunk, in order.
\<close>

theorem format_sources_entry:
  assumes "i < length chunks"
  shows "length (format_sources chunks) = length chunks \<and>
     src_content (format_sources chunks ! i) =
       (if length (content (chunks ! i)) \<le> 200 then content (chunks ! i)
        else take 200 (content (chunks ! i)) @ ''...'') \<and>
     src_score (format_sources chunks ! i) =
       (case score (chunks ! i) of Some x \<Rightarrow> x | None \<Rightarrow> 0) \<and>
     src_page (format_sources chunks ! i) =
       (case m_page (metadata (chunks ! i)) of
          Some n \<Rightarrow> PageNum n
        | None \<Rightarrow> PageStr ''?'') \<and>
     src_section (format_sources chunks ! i) =
       (case m_section (metadata (chunks ! i)) of Some t \<Rightarrow> t | None \<Rightarrow> [])"
  using assms by (simp add: format_sources_map format_source_def Let_def)

theorem format_sources_entry_witness:
  "(1::nat) < length [short_chunk, long_chunk] \<and>
   length (format_sources [short_chunk, long_chunk]) = 2 \<and>
   src_content (format_sources [short_chunk, long_chunk] ! 1)
     = replicate 200 (CHR ''x'') @ ''...'' \<and>
   src_score (format_sources [short_chunk, long_chunk] ! 1) = 3 / 4 \<and>
   src_page (format_sources [short_chunk, long_chunk] ! 1) = PageStr ''?'' \<and>
   src_section (format_sources [short_chunk, long_chunk] ! 1) = []"
  using format_sources_entry [of 1 "[short_chunk, long_chunk]"]
  by (simp add: long_chunk_def)

subsection \<open>The top-level answer operation\<close>

text \<open>
  Claim C3. An engine is created and then used in any way (questions asked, the mode
  switched). For every question for which retrieval returns no chunk,
  \<open>answer_question\<close> returns the fixed not-found message with an empty source list;
  the only thing it does is the similarity search: neither generator runs, no request
  goes to the language model, and the cache is left unchanged, with no entry for the
  question.
\<close>

theorem no_chunks_gives_not_found:
  assumes "s = run_ops (new_engine cfg vs prov) ops" "retrieved s q = []"
  shows "fst (answer_question s q) = Inr (not_found, []) \<and>
         events (snd (answer_question s q)) = events s @ [SimilaritySearch q] \<and>
         llm_calls (snd (answer_question s q)) = llm_calls s \<and>
         cache (snd (answer_question s q)) = cache s \<and>
         q \<notin> dom (cache (snd (answer_question s q)))"
proof -
  have "cache_sound s" using assms(1) by (simp add: cache_sound_run_ops cache_sound_new)
  with assms(2) have "q \<notin> dom (cache s)" by (auto simp: cache_sound_def)
  with assms(2) show ?thesis by (simp add: answer_question_empty)
qed

theorem no_chunks_gives_not_found_witness:
  "retrieved (run_ops free_engine [Ask ''leave'', SetMode ''paid'', Ask ''parking''])
     ''parking'' = [] \<and>
   fst (answer_question
          (run_ops free_engine [Ask ''leave'', SetMode ''paid'', Ask ''parking''])
          ''parking'')
     = Inr (''Sorry, no relevant information found in the handbook.'', []) \<and>
   ''parking'' \<notin> dom (cache (snd (answer_question
          (run_ops free_engine [Ask ''leave'', SetMode ''paid'', Ask ''parking''])
          ''parking'')))"
proof -
  let ?ops = "[Ask ''leave'', SetMode ''paid'', Ask ''parking'']"
  have made: "run_ops free_engine ?ops
      = run_ops (new_engine (example_config ''free'') example_store quota_provider) ?ops"
    by (simp add: free_engine_def)
  have none: "retrieved (run_ops free_engine ?ops) ''parking'' = []"
    by (simp add: retrieved_run_ops example_retrieved)
  from no_chunks_gives_not_found [OF made none] none show ?thesis
    by (auto simp: not_found_def)
qed



text \<open>
  Claim C1, as the code has it. In paid mode, with an API key set, let the request to
  the language model fail with \<open>e\<close>, for a question that is not served from the cache
  and has retrieved chunks. Then \<open>generate_answer_openai\<close> fails with
  \<open>LLMAPIError\<close>, but \<open>answer_question\<close> catches it and returns normally: the
  answer text is the fixed apology followed by the error text, with the formatted
  sources. The extractive generator is not called (the log gains the search, the
  generative call and the request only) and the answer is not the extractive text.
\<close>

theorem generation_failure_becomes_answer:
  assumes "MODE (config s) = ''paid''" "OPENAI_API_KEY (config s) \<noteq> []"
    "\<not> (ENABLE_CACHE (config s) \<and> q \<in> dom (cache s))" "retrieved s q \<noteq> []"
    "provider s (llm_calls s) (PROMPT_TEMPLATE_format (build_context (retrieved s q)) q) = Inl e"
  shows "fst (generate_answer_openai s q (build_context (retrieved s q)))
           = Inl (LLMAPIError (''OpenAI API error: '' @ str_error e)) \<and>
         fst (answer_question s q)
           = Inr (''Sorry, an error occurred while generating the answer: ''
                    @ ''OpenAI API error: '' @ str_error e,
                  format_sources (retrieved s q)) \<and>
         events (snd (answer_question s q))
           = events s @ [SimilaritySearch q, GenerateOpenAI q,
                         LLMInvoke (PROMPT_TEMPLATE_format (build_context (retrieved s q)) q)] \<and>
         ''Sorry, an error occurred while generating the answer: ''
             @ ''OpenAI API error: '' @ str_error e
           \<noteq> generate_simple_answer q (build_context (retrieved s q))"
proof -
  let ?ctx = "build_context (retrieved s q)"
  let ?s1 = "s\<lparr>events := events s @ [SimilaritySearch q, GenerateOpenAI q]\<rparr>"
  have gen: "fst (generate_answer_openai s q ?ctx)
      = Inl (LLMAPIError (''OpenAI API error: '' @ str_error e))"
    using generate_answer_openai_provider_error[OF assms(1,2,5)] by simp
  have gen1: "generate_answer_openai ?s1 q ?ctx =
     (Inl (LLMAPIError (''OpenAI API error: '' @ str_error e)),
      ?s1\<lparr>llm := True, llm_calls := llm_calls ?s1 + 1,
          events := events ?s1 @ [LLMInvoke (PROMPT_TEMPLATE_format ?ctx q)]\<rparr>)"
    by (rule generate_answer_openai_provider_error) (simp_all add: assms)
  have ans: "fst (answer_question s q)
           = Inr (''Sorry, an error occurred while generating the answer: ''
                    @ ''OpenAI API error: '' @ str_error e,
                  format_sources (retrieved s q))"
    and evs: "events (snd (answer_question s q))
           = events s @ [SimilaritySearch q, GenerateOpenAI q,
                         LLMInvoke (PROMPT_TEMPLATE_format ?ctx q)]"
    using answer_question_paid[OF assms(3,4,1) gen1] by (simp_all add: store_result_simps)
  have "''Sorry, an error occurred while generating the answer: ''
             @ ''OpenAI API error: '' @ str_error e
           \<noteq> generate_simple_answer q ?ctx"
    using simple_answer_shape[of q ?ctx] by (auto simp: not_found_def)
  with gen ans evs show ?thesis by simp
qed

theorem generation_failure_becomes_answer_witness:
  "MODE (config paid_engine) = ''paid'' \<and> OPENAI_API_KEY (config paid_engine) \<noteq> [] \<and>
   \<not> (ENABLE_CACHE (config paid_engine) \<and> ''leave'' \<in> dom (cache paid_engine)) \<and>
   retrieved paid_engine ''leave'' \<noteq> [] \<and>
   provider paid_engine (llm_calls paid_engine)
     (PROMPT_TEMPLATE_format (build_context (retrieved paid_engine ''leave'')) ''leave'')
     = Inl (ExternalError ''quota exceeded'') \<and>
   fst (answer_question paid_engine ''leave'')
     = Inr (''Sorry, an error occurred while generating the answer: OpenAI API error: quota exceeded'',
            [\<lparr>src_page = PageNum 1, src_section = [],
              src_content = ''3. Leave Policy\<newline>Employees get 15 days annual leave.'',
              src_score = 1 / 2\<rparr>])"
  using generation_failure_becomes_answer
          [of paid_engine "''leave''" "ExternalError ''quota exceeded''"]
  by (simp add: example_paid_engine example_sources) (simp add: example_retrieved)

text \<open>
  The claim C1 as stated fails on the example engine: in paid mode the provider refuses
  the request, and \<open>answer_question\<close> returns an answer instead of failing.
\<close>

theorem generation_failure_not_propagated:
  "MODE (config paid_engine) = ''paid'' \<and>
   provider paid_engine (llm_calls paid_engine)
     (PROMPT_TEMPLATE_format (build_context (retrieved paid_engine ''leave'')) ''leave'')
     = Inl (ExternalError ''quota exceeded'') \<and>
   \<not> isl (fst (answer_question paid_engine ''leave'')) \<and>
   fst (answer_question paid_engine ''leave'')
     = Inr (''Sorry, an error occurred while generating the answer: OpenAI API error: quota exceeded'',
            [\<lparr>src_page = PageNum 1, src_section = [],
              src_content = ''3. Leave Policy\<newline>Employees get 15 days annual leave.'',
              src_score = 1 / 2\<rparr>])"
proof -
  have "fst (answer_question paid_engine ''leave'') =
     Inr (''Sorry, an error occurred while generating the answer: OpenAI API error: quota exceeded'',
          format_sources (retrieved paid_engine ''leave''))"
    using answer_question_generation_error
            [OF example_paid_engine(1) _ _ example_generation_fails]
    by (auto simp: example_paid_engine example_retrieved)
  then show ?thesis by (simp add: example_paid_engine example_sources)
qed

text \<open>
  Claim C9. With caching enabled, in paid mode, let generation fail with \<open>e\<close> for a
  question that is not cached and has retrieved chunks. Then the apology text with the
  error is returned and stored in the cache under the question, and after any further
  use of the engine (questions asked, mode switched; the cache is never cleared by
  these) asking the same question returns that cached error answer and leaves the
  engine exactly as it was: no search, no generation, no request.
\<close>

theorem generation_error_is_cached:
  assumes "ENABLE_CACHE (config s)" "MODE (config s) = ''paid''" "q \<notin> dom (cache s)"
    "retrieved s q \<noteq> []"
    "fst (generate_answer_openai s q (build_context (retrieved s q))) = Inl e"
  shows "fst (answer_question s q)
           = Inr (''Sorry, an error occurred while generating the answer: '' @ str_error e,
                  format_sources (retrieved s q)) \<and>
         cache (snd (answer_question s q)) q
           = Some (''Sorry, an error occurred while generating the answer: '' @ str_error e,
                   format_sources (retrieved s q)) \<and>
         answer_question (run_ops (snd (answer_question s q)) ops) q
           = (Inr (''Sorry, an error occurred while generating the answer: '' @ str_error e,
                   format_sources (retrieved s q)),
              run_ops (snd (answer_question s q)) ops)"
proof -
  let ?entry = "(''Sorry, an error occurred while generating the answer: '' @ str_error e,
                 format_sources (retrieved s q))"
  let ?s1 = "snd (answer_question s q)"
  from assms(3) have miss: "\<not> (ENABLE_CACHE (config s) \<and> q \<in> dom (cache s))" by simp
  from answer_question_generation_error[OF assms(2) miss assms(4,5)] assms(1)
  have first: "fst (answer_question s q) = Inr ?entry" and stored: "cache ?s1 q = Some ?entry"
    by (auto simp: store_result_simps)
  have "ENABLE_CACHE (config ?s1)" using assms(1) by (simp add: answer_question_frame)
  with stored have "settled ?s1 q ?entry" by (simp add: settled_def)
  then have "settled (run_ops ?s1 ops) q ?entry" using settled_run_ops by blast
  moreover have "retrieved (run_ops ?s1 ops) q \<noteq> []"
    using assms(4) retrieved_cong[of ?s1 s q]
    by (simp add: retrieved_run_ops answer_question_frame)
  ultimately have "ENABLE_CACHE (config (run_ops ?s1 ops))"
    "cache (run_ops ?s1 ops) q = Some ?entry"
    by (auto simp: settled_def)
  then have "answer_question (run_ops ?s1 ops) q = (Inr ?entry, run_ops ?s1 ops)"
    by (rule answer_question_hit)
  with first stored show ?thesis by simp
qed

theorem generation_error_is_cached_witness:
  "ENABLE_CACHE (config paid_engine) \<and> MODE (config paid_engine) = ''paid'' \<and>
   ''leave'' \<notin> dom (cache paid_engine) \<and> retrieved paid_engine ''leave'' \<noteq> [] \<and>
   fst (generate_answer_openai paid_engine ''leave''
          (build_context (retrieved paid_engine ''leave'')))
     = Inl (LLMAPIError ''OpenAI API error: quota exceeded'') \<and>
   cache (snd (answer_question paid_engine ''leave'')) ''leave''
     = Some (''Sorry, an error occurred while generating the answer: OpenAI API error: quota exceeded'',
             [\<lparr>src_page = PageNum 1, src_section = [],
               src_content = ''3. Leave Policy\<newline>Employees get 15 days annual leave.'',
               src_score = 1 / 2\<rparr>]) \<and>
   fst (answer_question
          (run_ops (snd (answer_question paid_engine ''leave''))
             [Ask ''parking'', SetMode ''free'', Ask ''leave''])
          ''leave'')
     = Inr (''Sorry, an error occurred while generating the answer: OpenAI API error: quota exceeded'',
            [\<lparr>src_page = PageNum 1, src_section = [],
              src_content = ''3. Leave Policy\<newline>Employees get 15 days annual leave.'',
              src_score = 1 / 2\<rparr>])"
  using generation_error_is_cached
          [of paid_engine "''leave''" "LLMAPIError ''OpenAI API error: quota exceeded''"
              "[Ask ''parking'', SetMode ''free'', Ask ''leave'']"]
  by (simp add: example_paid_engine example_generation_fails example_sources)
     (simp add: example_retrieved)

subsection \<open>Claims about chunk identifiers\<close>




subsection \<open>The free-mode answer\<close>

text \<open>
  Claim C6, as the code has it. In free mode the answer is the fixed not-found message
  when the context has no content line after a numbered page marker (in particular
  when it has no marker, or none with a number). Otherwise it is a single header that
  names the page number of the last numbered marker of the whole context, followed by
  at most 15 bullet lines: the first 15 content lines. The bullet lines carry no page
  number of their own.
\<close>

theorem simple_answer_is_header_and_bullets: "generate_simple_answer question context = simple_answer_spec context"
proof -
  let ?ls = "map strip (split_nl context)"
  have loop: "foldl simple_step ([], None) (split_nl context) =
      (map bullet_line (content_lines ?ls), final_page None ?ls)"
    using simple_loop[of "[]" None "split_nl context"]
    by (simp add: content_from_def truthy_def)
  show ?thesis
  proof (cases "content_lines ?ls = []")
    case True
    with loop show ?thesis by (simp add: generate_simple_answer_def simple_answer_spec_def)
  next
    case False
    from content_lines_pages[OF False] have "final_page None ?ls
        = Some (last (List.map_filter marker_page ?ls))"
      by (simp add: final_page_def)
    with loop False show ?thesis
      by (simp add: generate_simple_answer_def simple_answer_spec_def Let_def take_map)
  qed
qed

theorem simple_answer_is_header_and_bullets_witness:
  "generate_simple_answer ''How many vacation days do I get?''
     ''[Source: Page 1]\<newline>3. Leave Policy\<newline>Employees get 15 days annual leave.''
   = ''According to the employee handbook (Page 1), here is the relevant information:''
       @ [nl, nl] @ bullet @ '' 3. Leave Policy'' @ [nl]
       @ bullet @ '' Employees get 15 days annual leave.''"
  using simple_answer_is_header_and_bullets
          [of "''How many vacation days do I get?''"
              "''[Source: Page 1]\<newline>3. Leave Policy\<newline>Employees get 15 days annual leave.''"]
  by (simp add: simple_answer_spec_def content_lines_def marker_page_def is_marker_def
      bullet_line_def strip_def is_space_def startswith_def search_page_def page_pattern_def
      is_digit_def nl_def map_filter_simps Let_def)

text \<open>
  The claim C6 as stated fails where the context has chunks of two pages: the line
  \<open>alpha\<close> follows the marker of page 3, but the answer names page 7 only, once,
  in its header.
\<close>

theorem simple_answer_names_last_page_only:
  "generate_simple_answer ''Which page?''
     ''[Source: Page 3]\<newline>alpha\<newline>\<newline>[Source: Page 7]\<newline>beta''
   = ''According to the employee handbook (Page 7), here is the relevant information:''
       @ [nl, nl] @ bullet @ '' alpha'' @ [nl] @ bullet @ '' beta''"
  by (simp add: generate_simple_answer_def simple_step_def strip_def is_space_def startswith_def
      search_page_def page_pattern_def is_digit_def truthy_def nl_def Let_def)

subsection \<open>Claims about the section-aware split\<close>






end
